theory Spec2Isabelle
  imports Main "HOL-Library.Word"
begin

section \<open>Data model of the attribute event pipeline\<close>

text \<open>
  The embedding follows \<^verbatim>\<open>AssetProcessingService.java\<close>. Java \<^verbatim>\<open>long\<close> is a 64-bit
  word: subtraction wraps around and comparisons read the word as two's complement
  (\<open>sint\<close>). A reference that may be \<^verbatim>\<open>null\<close> is an \<open>option\<close>. An exception is a value
  of type \<open>throwable\<close>; a call that raises returns it instead of a result.

  The classes \<^verbatim>\<open>AttributeEvent\<close>, \<^verbatim>\<open>AssetAttribute\<close>, \<^verbatim>\<open>ServerAsset\<close> and
  \<^verbatim>\<open>AssetUpdate\<close> are used by the service but declared elsewhere; the records below hold
  the fields the service reads and writes through their accessors. Of the enumeration
  \<^verbatim>\<open>AssetType\<close> the service names \<open>AGENT\<close> and \<open>THING\<close>. Of \<^verbatim>\<open>AssetUpdate.Status\<close>
  the service and its documentation name \<open>HANDLED\<close>, \<open>ERROR\<close>, \<open>COMPLETED\<close> and
  \<open>RULES_HANDLED\<close>; \<open>PENDING\<close> and \<open>CONTINUE\<close> are the two further states of the
  specification.

  The calls of \<^verbatim>\<open>LOG.fine\<close>, \<^verbatim>\<open>LOG.severe\<close> and \<^verbatim>\<open>LOG.log\<close> write nothing the
  service reads back and are left out, and so is the \<^verbatim>\<open>finally\<close> block, which only logs.
\<close>

type_synonym long = "64 word"

datatype asset_type = AGENT | THING | OtherAssetType string

datatype throwable =
    IllegalArgumentException string
  | NullPointerException
  | Thrown string
  | RuntimeException string "throwable option"

text \<open>
  \<open>Thrown\<close> stands for any \<^verbatim>\<open>Throwable\<close> raised by a collaborator, told apart by a
  tag. \<open>RuntimeException m c\<close> has message \<open>m\<close> and cause \<open>c\<close> (\<open>None\<close> is Java's
  \<^verbatim>\<open>null\<close> cause).
\<close>

datatype status = PENDING | CONTINUE | RULES_HANDLED | HANDLED | ERROR | COMPLETED

record 'v attribute_event =
  entityId :: string
  attributeName :: string
  eventValue :: 'v
  timestamp :: long

record 'v asset_attribute =
  attrName :: string
  currentValue :: 'v
  lastUpdateTimestamp :: long
  readOnly :: bool

record server_asset =
  assetId :: string
  wellKnownType :: asset_type

record 'v asset_update =
  asset :: "server_asset option"
  attribute :: "'v asset_attribute"
  oldValue :: 'v
  oldValueTimestamp :: long
  northbound :: bool
  status :: status
  error :: "throwable option"

text \<open>
  A processor is a \<^verbatim>\<open>Consumer<AssetUpdate>\<close>. Its \<^verbatim>\<open>accept\<close> may change the world
  outside the pipeline (rule sessions, databases, protocol queues; the type \<open>'w\<close>), may
  mutate the update it is given, and may throw, after it has done part of either. So
  \<open>accept\<close> returns the world and the update as the call leaves them, and the throwable
  if it threw. \<open>pname\<close> is the processor's \<^verbatim>\<open>toString()\<close>, which identifies it in
  messages.
\<close>

record ('v, 'w) processor =
  pname :: string
  accept :: "'w \<Rightarrow> 'v asset_update \<Rightarrow> 'w \<times> 'v asset_update \<times> throwable option"

text \<open>
  The collaborators and the environment of the service. \<open>findAsset\<close> is
  \<^verbatim>\<open>assetStorageService.find(id, true)\<close> (\<open>find\<close> is a function on lists in HOL); \<open>newAssetAttributes\<close> is the constructor
  \<^verbatim>\<open>new AssetAttributes(asset)\<close>, whose argument may be \<^verbatim>\<open>null\<close> and whose result maps
  attribute names to attributes (\<^verbatim>\<open>attributes.get(name)\<close>); \<open>thingAttributeGet\<close> is
  \<^verbatim>\<open>ThingAttribute.get(attribute, resolver)\<close>, \<open>None\<close> when the attribute is not linked to
  an agent; \<open>constraintsOk\<close> are the constraints \<^verbatim>\<open>setValue\<close> validates;
  \<open>currentTimeMillis\<close> is the clock reading of the call; \<open>processors\<close> is the list built
  in \<^verbatim>\<open>init\<close>; the two \<open>ToString\<close> functions render objects in exception messages.
  None of these is declared in the service, so each is a parameter.
\<close>

record ('v, 'w) services =
  findAsset :: "string \<Rightarrow> server_asset option"
  newAssetAttributes ::
    "server_asset option \<Rightarrow> throwable + (string \<Rightarrow> 'v asset_attribute option)"
  thingAttributeGet :: "'v asset_attribute option \<Rightarrow> throwable + 'v asset_attribute option"
  constraintsOk :: "'v asset_attribute \<Rightarrow> 'v \<Rightarrow> bool"
  currentTimeMillis :: long
  processors :: "('v, 'w) processor list"
  assetToString :: "server_asset \<Rightarrow> string"
  updateToString :: "'v asset_update \<Rightarrow> string"

text \<open>
  What a call did. \<open>Ignored\<close> is an early \<^verbatim>\<open>return\<close> after a \<^verbatim>\<open>LOG.warning\<close>, one
  constructor of \<open>warning\<close> per such place; \<open>Threw\<close> is an exception that reaches the
  caller; \<open>Returned\<close> is the normal return of the processing chain.
\<close>

datatype warning =
    AssetNotFound
  | AttributeNotFound
  | AttributeReadOnly
  | NotLinkedToAgent
  | EventTimeInFuture
  | EventTimeOlder
  | ConstraintViolation

datatype outcome = Ignored warning | Threw throwable | Returned

text \<open>
  \<open>update\<close> is the \<^verbatim>\<open>AssetUpdate\<close> object as it is when the call ends, if the call
  created one. \<open>attributeAfter\<close> is the attribute object the call last held, in its
  state when the call ends (\<open>None\<close> if the call obtained no attribute). \<open>invoked\<close> lists, in
  order, the processors whose \<^verbatim>\<open>accept\<close> was called.
\<close>

record ('v, 'w) result =
  outcome :: outcome
  update :: "'v asset_update option"
  attributeAfter :: "'v asset_attribute option"
  worldAfter :: 'w
  invoked :: "string list"

definition ignored ::
  "warning \<Rightarrow> 'v asset_attribute option \<Rightarrow> 'w \<Rightarrow> ('v, 'w) result" where
  "ignored wn a w =
     \<lparr>outcome = Ignored wn, update = None, attributeAfter = a, worldAfter = w, invoked = []\<rparr>"

definition threw ::
  "throwable \<Rightarrow> 'v asset_attribute option \<Rightarrow> 'w \<Rightarrow> ('v, 'w) result" where
  "threw t a w =
     \<lparr>outcome = Threw t, update = None, attributeAfter = a, worldAfter = w, invoked = []\<rparr>"

section \<open>Operations declared outside the service\<close>

text \<open>
  Modelled from the spec: \<^verbatim>\<open>AbstractAssetAttribute.setValue(value, timestamp)\<close> is not part
  of the service. The specification says that the constraint check is an attempt to apply
  the value to the attribute, that on success the attribute's current value and last
  update timestamp are mutated in place, and that a rejected event never mutates the
  attribute. The violation is Java's \<^verbatim>\<open>IllegalArgumentException\<close>, the only exception the
  service catches there.
\<close>

definition setValue ::
  "('v asset_attribute \<Rightarrow> 'v \<Rightarrow> bool) \<Rightarrow> 'v asset_attribute \<Rightarrow> 'v \<Rightarrow> long
     \<Rightarrow> throwable + 'v asset_attribute" where
  "setValue ok a v ts =
     (if ok a v then Inr (a\<lparr>currentValue := v, lastUpdateTimestamp := ts\<rparr>)
      else Inl (IllegalArgumentException ''attribute constraint violation''))"

text \<open>
  Modelled from the spec: the constructor of \<^verbatim>\<open>AssetUpdate\<close> is not part of the service.
  The specification says that the processing context references the asset and the
  attribute, holds the attribute's previous value and timestamp and the direction, starts
  with status \<open>PENDING\<close> and has no captured error.
\<close>

definition new_AssetUpdate ::
  "server_asset option \<Rightarrow> 'v asset_attribute \<Rightarrow> 'v \<Rightarrow> long \<Rightarrow> bool \<Rightarrow> 'v asset_update" where
  "new_AssetUpdate a attr v ts nb =
     \<lparr>asset = a, attribute = attr, oldValue = v, oldValueTimestamp = ts, northbound = nb,
      status = PENDING, error = None\<rparr>"

section \<open>The processing chain\<close>

text \<open>
  The body of the inner \<^verbatim>\<open>try\<close>: call \<^verbatim>\<open>processor.accept(assetUpdate)\<close>; if it throws,
  \<^verbatim>\<open>setStatus(ERROR)\<close> and \<^verbatim>\<open>setError(t)\<close> on the update as the processor left it.
\<close>

definition invoke ::
  "('v, 'w) processor \<Rightarrow> 'w \<Rightarrow> 'v asset_update \<Rightarrow> 'w \<times> 'v asset_update" where
  "invoke p w u =
     (case accept p w u of
        (w', u', None) \<Rightarrow> (w', u')
      | (w', u', Some t) \<Rightarrow> (w', u'\<lparr>status := ERROR, error := Some t\<rparr>))"

text \<open>
  The loop labelled \<^verbatim>\<open>processorLoop\<close>. It ends by running out of processors, by the
  \<^verbatim>\<open>break\<close> of case \<open>HANDLED\<close>, or by the \<^verbatim>\<open>throw\<close> of case \<open>ERROR\<close>, which first sets
  the status to \<open>COMPLETED\<close> and then builds the exception from the processor, the update
  and the update's error field.
\<close>

datatype loop_exit = Exhausted | Broke | Escalated throwable

fun processorLoop ::
  "('v asset_update \<Rightarrow> string) \<Rightarrow> ('v, 'w) processor list \<Rightarrow> 'w \<Rightarrow> 'v asset_update
     \<Rightarrow> loop_exit \<times> 'w \<times> 'v asset_update \<times> string list" where
  "processorLoop toStr [] w u = (Exhausted, w, u, [])"
| "processorLoop toStr (p # ps) w u =
     (case invoke p w u of (w', u') \<Rightarrow>
        (case status u' of
           HANDLED \<Rightarrow> (Broke, w', u', [pname p])
         | ERROR \<Rightarrow>
             (let u'' = u'\<lparr>status := COMPLETED\<rparr>
              in (Escalated
                    (RuntimeException (''Processor '' @ pname p @ '' error: '' @ toStr u'')
                       (error u'')),
                  w', u'', [pname p]))
         | _ \<Rightarrow>
             (case processorLoop toStr ps w' u' of
                (x, w'', u'', tr) \<Rightarrow> (x, w'', u'', pname p # tr))))"

text \<open>
  \<^verbatim>\<open>processUpdate(AssetUpdate)\<close>: after the loop, unless it threw, the status is set
  to \<open>COMPLETED\<close>.
\<close>

definition processUpdate_AssetUpdate ::
  "('v, 'w) services \<Rightarrow> 'w \<Rightarrow> 'v asset_update \<Rightarrow> ('v, 'w) result" where
  "processUpdate_AssetUpdate env w u =
     (case processorLoop (updateToString env) (processors env) w u of
        (Escalated t, w', u', tr) \<Rightarrow>
          \<lparr>outcome = Threw t, update = Some u', attributeAfter = Some (attribute u'),
           worldAfter = w', invoked = tr\<rparr>
      | (_, w', u', tr) \<Rightarrow>
          \<lparr>outcome = Returned, update = Some (u'\<lparr>status := COMPLETED\<rparr>),
           attributeAfter = Some (attribute u'), worldAfter = w', invoked = tr\<rparr>)"

section \<open>Validation\<close>

text \<open>
  \<^verbatim>\<open>processUpdate(asset, attribute, attributeEvent, northbound)\<close>. The first test is
  \<^verbatim>\<open>attributeEvent.getTimestamp() - System.currentTimeMillis() > 1000\<close> on \<^verbatim>\<open>long\<close>: the
  difference is taken in 64 bits and then read as a signed number.
  \<^verbatim>\<open>attribute.getStateEvent()\<close> is the attribute's current value and timestamp.
\<close>

definition processUpdate ::
  "('v, 'w) services \<Rightarrow> 'w \<Rightarrow> server_asset option \<Rightarrow> 'v asset_attribute
     \<Rightarrow> 'v attribute_event \<Rightarrow> bool \<Rightarrow> ('v, 'w) result" where
  "processUpdate env w a attr e nb =
     (if 1000 < sint (timestamp e - currentTimeMillis env)
      then ignored EventTimeInFuture (Some attr) w
      else
        (let lastValue = currentValue attr; lastTimestamp = lastUpdateTimestamp attr
         in if 0 \<le> sint lastTimestamp \<and> sint (timestamp e) \<le> sint lastTimestamp
            then ignored EventTimeOlder (Some attr) w
            else
              (case setValue (constraintsOk env) attr (eventValue e) (timestamp e) of
                 Inl ex \<Rightarrow> ignored ConstraintViolation (Some attr) w
               | Inr attr' \<Rightarrow>
                   processUpdate_AssetUpdate env w
                     (new_AssetUpdate a attr' lastValue lastTimestamp nb))))"

section \<open>Entry points\<close>

text \<open>
  \<^verbatim>\<open>updateAttributeValue\<close>, the southbound entry point: the asset must exist, must not
  be an agent, the attribute must exist and must not be read-only.
\<close>

definition updateAttributeValue ::
  "('v, 'w) services \<Rightarrow> 'w \<Rightarrow> 'v attribute_event \<Rightarrow> ('v, 'w) result" where
  "updateAttributeValue env w e =
     (case findAsset env (entityId e) of
        None \<Rightarrow> ignored AssetNotFound None w
      | Some a \<Rightarrow>
          if wellKnownType a = AGENT
          then threw (IllegalArgumentException
                 (''Agent attributes can not be updated individually, update the whole asset instead: ''
                    @ assetToString env a)) None w
          else
            (case newAssetAttributes env (Some a) of
               Inl t \<Rightarrow> threw t None w
             | Inr attributes \<Rightarrow>
                 (case attributes (attributeName e) of
                    None \<Rightarrow> ignored AttributeNotFound None w
                  | Some attr \<Rightarrow>
                      if readOnly attr then ignored AttributeReadOnly (Some attr) w
                      else processUpdate env w (Some a) attr e False)))"

text \<open>
  \<^verbatim>\<open>processSensorUpdate\<close>, the northbound entry point. The test that the asset exists
  and is a thing is commented out in the source, so \<open>thing\<close> reaches the constructor of
  \<^verbatim>\<open>AssetAttributes\<close> as it was found, \<^verbatim>\<open>null\<close> included. The read-only flag is not
  tested.
\<close>

definition processSensorUpdate ::
  "('v, 'w) services \<Rightarrow> 'w \<Rightarrow> 'v attribute_event \<Rightarrow> ('v, 'w) result" where
  "processSensorUpdate env w e =
     (let thing = findAsset env (entityId e)
      in case newAssetAttributes env thing of
           Inl t \<Rightarrow> threw t None w
         | Inr attributes \<Rightarrow>
             (let attr = attributes (attributeName e)
              in case thingAttributeGet env attr of
                   Inl t \<Rightarrow> threw t attr w
                 | Inr None \<Rightarrow> ignored NotLinkedToAgent attr w
                 | Inr (Some thingAttribute) \<Rightarrow>
                     processUpdate env w thing thingAttribute e True))"

section \<open>What the claims speak about\<close>

text \<open>
  A submission through either entry point: \<open>nb\<close> tells the northbound entry point
  \<^verbatim>\<open>processSensorUpdate\<close> from the southbound \<^verbatim>\<open>updateAttributeValue\<close>.
\<close>

definition submit ::
  "bool \<Rightarrow> ('v, 'w) services \<Rightarrow> 'w \<Rightarrow> 'v attribute_event \<Rightarrow> ('v, 'w) result" where
  "submit nb env w e =
     (if nb then processSensorUpdate env w e else updateAttributeValue env w e)"

text \<open>
  The attribute object an entry point hands to validation for an event, as the lookups
  return it and before anything is applied to it: southbound the asset's attribute of
  that name, northbound its view as a thing attribute where there is one.
\<close>

definition addressed ::
  "bool \<Rightarrow> ('v, 'w) services \<Rightarrow> 'v attribute_event \<Rightarrow> 'v asset_attribute option" where
  "addressed nb env e =
     (if nb then
        (case newAssetAttributes env (findAsset env (entityId e)) of
           Inl t \<Rightarrow> None
         | Inr attributes \<Rightarrow>
             (case thingAttributeGet env (attributes (attributeName e)) of
                Inr (Some thingAttribute) \<Rightarrow> Some thingAttribute
              | _ \<Rightarrow> attributes (attributeName e)))
      else
        (case findAsset env (entityId e) of
           None \<Rightarrow> None
         | Some a \<Rightarrow>
             (case newAssetAttributes env (Some a) of
                Inl t \<Rightarrow> None
              | Inr attributes \<Rightarrow> attributes (attributeName e))))"

text \<open>
  A rejection by a pre-check or by a validation step: an early return after a warning, or
  the \<^verbatim>\<open>IllegalArgumentException\<close> of the agent check. A failure of the processing chain
  is a \<^verbatim>\<open>RuntimeException\<close> and is not a rejection.
\<close>

fun rejected :: "outcome \<Rightarrow> bool" where
  "rejected (Ignored wn) = True"
| "rejected (Threw (IllegalArgumentException m)) = True"
| "rejected other = False"

section \<open>A small installation, for concrete runs\<close>

text \<open>
  Values are strings and the world is the journal of what the processors did. Five
  kinds of processor: one that does its work and returns; one that marks the update
  \<open>HANDLED\<close>; one that marks it \<open>HANDLED\<close> and then throws; one that marks it \<open>ERROR\<close>
  and returns; one that marks it \<open>ERROR\<close>, records an error on the update with
  \<^verbatim>\<open>setError\<close> and returns.
\<close>

definition recording :: "string \<Rightarrow> (string, string list) processor" where
  "recording n = \<lparr>pname = n, accept = (\<lambda>w u. (w @ [n], u, None))\<rparr>"

definition handling :: "string \<Rightarrow> (string, string list) processor" where
  "handling n = \<lparr>pname = n, accept = (\<lambda>w u. (w @ [n], u\<lparr>status := HANDLED\<rparr>, None))\<rparr>"

definition throwing :: "string \<Rightarrow> (string, string list) processor" where
  "throwing n =
     \<lparr>pname = n,
      accept = (\<lambda>w u. (w @ [n], u\<lparr>status := HANDLED\<rparr>, Some (Thrown ''boom'')))\<rparr>"

definition flagging :: "string \<Rightarrow> (string, string list) processor" where
  "flagging n = \<lparr>pname = n, accept = (\<lambda>w u. (w @ [n], u\<lparr>status := ERROR\<rparr>, None))\<rparr>"

definition reporting :: "string \<Rightarrow> (string, string list) processor" where
  "reporting n =
     \<lparr>pname = n,
      accept = (\<lambda>w u.
        (w @ [n], u\<lparr>status := ERROR, error := Some (Thrown ''no agent link'')\<rparr>, None))\<rparr>"

definition thing1 :: server_asset where
  "thing1 = \<lparr>assetId = ''thing1'', wellKnownType = THING\<rparr>"

definition agent1 :: server_asset where
  "agent1 = \<lparr>assetId = ''agent1'', wellKnownType = AGENT\<rparr>"

definition temperature :: "string asset_attribute" where
  "temperature =
     \<lparr>attrName = ''temperature'', currentValue = ''unset'', lastUpdateTimestamp = - 1,
      readOnly = False\<rparr>"

definition serial :: "string asset_attribute" where
  "serial =
     \<lparr>attrName = ''serial'', currentValue = ''A-17'', lastUpdateTimestamp = 10,
      readOnly = True\<rparr>"

text \<open>
  Two assets, a thing and an agent, each with the attributes \<open>temperature\<close> (never set,
  linked to an agent) and \<open>serial\<close> (read-only, not linked). In this
  installation the constructor of \<^verbatim>\<open>AssetAttributes\<close> raises \<^verbatim>\<open>NullPointerException\<close>
  on \<^verbatim>\<open>null\<close>, as a constructor that reads its argument would; the runs below give it
  assets that were found. The constraint on every attribute is that the value is not the
  empty string.
\<close>

definition exampleServices ::
  "(string, string list) processor list \<Rightarrow> long \<Rightarrow> (string, string list) services" where
  "exampleServices ps now =
     \<lparr>findAsset = (\<lambda>i. if i = ''thing1'' then Some thing1
                       else if i = ''agent1'' then Some agent1 else None),
      newAssetAttributes = (\<lambda>a. case a of
         None \<Rightarrow> Inl NullPointerException
       | Some x \<Rightarrow> Inr (\<lambda>n. if n = ''temperature'' then Some temperature
                             else if n = ''serial'' then Some serial else None)),
      thingAttributeGet = (\<lambda>a. case a of
         None \<Rightarrow> Inr None
       | Some x \<Rightarrow> Inr (if attrName x = ''temperature'' then Some x else None)),
      constraintsOk = (\<lambda>a v. v \<noteq> []),
      currentTimeMillis = now,
      processors = ps,
      assetToString = assetId,
      updateToString = (\<lambda>u. attrName (attribute u))\<rparr>"

definition event :: "string \<Rightarrow> string \<Rightarrow> string \<Rightarrow> long \<Rightarrow> string attribute_event" where
  "event i n v ts = \<lparr>entityId = i, attributeName = n, eventValue = v, timestamp = ts\<rparr>"

text \<open>
  The scenario of the concrete runs: the event \<open>21.5\<close> at time 100 for the temperature
  of the thing. \<open>accepted\<close> is the attribute once validation has applied the event,
  \<open>pending\<close> the update that validation then hands to the chain.
\<close>

definition accepted :: "string asset_attribute" where
  "accepted = temperature\<lparr>currentValue := ''21.5'', lastUpdateTimestamp := 100\<rparr>"

definition pending :: "string asset_update" where
  "pending = new_AssetUpdate (Some thing1) accepted ''unset'' (- 1) False"

section \<open>Properties of the processing chain\<close>







lemmas service_defs =
  processUpdate_def processUpdate_AssetUpdate_def updateAttributeValue_def
  processSensorUpdate_def ignored_def threw_def setValue_def new_AssetUpdate_def invoke_def
  submit_def addressed_def

lemmas example_defs =
  recording_def handling_def throwing_def flagging_def reporting_def
  thing1_def agent1_def temperature_def serial_def exampleServices_def event_def

lemmas scenario_defs = accepted_def pending_def

text \<open>
  The exception the loop raises is always the \<^verbatim>\<open>RuntimeException\<close> built in case
  \<open>ERROR\<close>, so the chain never ends in a rejection.
\<close>

lemma processorLoop_Escalated_RuntimeException:
  "processorLoop f ps w u = (Escalated t, w1, u1, tr) \<Longrightarrow> \<exists>m c. t = RuntimeException m c"
proof (induction ps arbitrary: w u tr)
  case Nil
  then show ?case by simp
next
  case (Cons q qs)
  obtain w' u' where inv: "invoke q w u = (w', u')" by (cases "invoke q w u")
  obtain x w'' u'' tr' where rec: "processorLoop f qs w' u' = (x, w'', u'', tr')"
    by (cases "processorLoop f qs w' u'")
  show ?case
  proof (cases "status u' = HANDLED \<or> status u' = ERROR")
    case True
    with Cons.prems inv show ?thesis by (auto simp: Let_def)
  next
    case False
    with Cons.prems inv rec have "processorLoop f qs w' u' = (Escalated t, w1, u1, tr')"
      by (cases "status u'") auto
    then show ?thesis by (rule Cons.IH)
  qed
qed

lemma chain_not_rejected: "\<not> rejected (outcome (processUpdate_AssetUpdate env w u))"
proof -
  obtain x w1 u1 tr where loop:
    "processorLoop (updateToString env) (processors env) w u = (x, w1, u1, tr)"
    by (cases "processorLoop (updateToString env) (processors env) w u")
  show ?thesis
  proof (cases x)
    case Exhausted
    then show ?thesis by (simp add: processUpdate_AssetUpdate_def loop)
  next
    case Broke
    then show ?thesis by (simp add: processUpdate_AssetUpdate_def loop)
  next
    case (Escalated t)
    with loop have "processorLoop (updateToString env) (processors env) w u =
        (Escalated t, w1, u1, tr)"
      by simp
    from processorLoop_Escalated_RuntimeException [OF this]
    obtain m c where "t = RuntimeException m c" by auto
    with Escalated show ?thesis by (simp add: processUpdate_AssetUpdate_def loop)
  qed
qed


text \<open>
  Validation passes exactly when the three tests pass; it then runs the chain on the
  update built from the mutated attribute and the attribute's previous state.
\<close>

lemma processUpdate_accepts:
  assumes "\<not> 1000 < sint (timestamp e - currentTimeMillis env)"
    and "\<not> (0 \<le> sint (lastUpdateTimestamp attr)
            \<and> sint (timestamp e) \<le> sint (lastUpdateTimestamp attr))"
    and "constraintsOk env attr (eventValue e)"
  shows "processUpdate env w a attr e nb =
    processUpdate_AssetUpdate env w
      (new_AssetUpdate a
         (attr\<lparr>currentValue := eventValue e, lastUpdateTimestamp := timestamp e\<rparr>)
         (currentValue attr) (lastUpdateTimestamp attr) nb)"
  using assms by (auto simp add: processUpdate_def setValue_def Let_def)

lemma processUpdate_rejected:
  assumes "rejected (outcome (processUpdate env w a attr e nb))"
  shows "update (processUpdate env w a attr e nb) = None
         \<and> invoked (processUpdate env w a attr e nb) = []
         \<and> worldAfter (processUpdate env w a attr e nb) = w
         \<and> attributeAfter (processUpdate env w a attr e nb) = Some attr"
proof (cases "1000 < sint (timestamp e - currentTimeMillis env)")
  case True
  then show ?thesis by (simp add: processUpdate_def ignored_def)
next
  case fresh: False
  show ?thesis
  proof (cases "0 \<le> sint (lastUpdateTimestamp attr)
                 \<and> sint (timestamp e) \<le> sint (lastUpdateTimestamp attr)")
    case True
    with fresh show ?thesis by (simp add: processUpdate_def ignored_def)
  next
    case newer: False
    show ?thesis
    proof (cases "constraintsOk env attr (eventValue e)")
      case True
      with assms processUpdate_accepts [OF fresh newer True, of w a nb]
      show ?thesis by (simp add: chain_not_rejected)
    next
      case False
      with fresh newer show ?thesis
        by (auto simp add: processUpdate_def setValue_def ignored_def Let_def)
    qed
  qed
qed

section \<open>The claims\<close>

text \<open>
  C1. For an attribute whose last recorded timestamp is at least 0, validation drops every
  event whose timestamp is at most that timestamp: the call returns after a warning (that
  of the monotonicity test, or that of the future test when the clock reading makes that
  one fire first), no update is created, no processor is invoked, the world is as before
  and the attribute has the value and the timestamp it had.
\<close>

theorem stale_event_dropped:
  assumes "0 \<le> sint (lastUpdateTimestamp attr)"
    and "sint (timestamp e) \<le> sint (lastUpdateTimestamp attr)"
  shows "outcome (processUpdate env w a attr e nb) =
           (if 1000 < sint (timestamp e - currentTimeMillis env)
            then Ignored EventTimeInFuture else Ignored EventTimeOlder)
         \<and> update (processUpdate env w a attr e nb) = None
         \<and> attributeAfter (processUpdate env w a attr e nb) = Some attr
         \<and> worldAfter (processUpdate env w a attr e nb) = w
         \<and> invoked (processUpdate env w a attr e nb) = []"
  using assms by (simp add: processUpdate_def ignored_def)

text \<open>
  The run of the claim: the event at time 100 is accepted and leaves the attribute at
  (21.5, 100); then the event at time 50 and the replay of the first event are dropped and
  the attribute stays at (21.5, 100).
\<close>

theorem stale_event_dropped_witness:
  "attributeAfter
     (processUpdate (exampleServices [recording ''rules'', recording ''storage''] 120) []
        (Some thing1) temperature (event ''thing1'' ''temperature'' ''21.5'' 100) False)
     = Some accepted
   \<and> 0 \<le> sint (lastUpdateTimestamp accepted)
   \<and> sint (timestamp (event ''thing1'' ''temperature'' ''19.0'' 50))
        \<le> sint (lastUpdateTimestamp accepted)
   \<and> processUpdate (exampleServices [recording ''rules'', recording ''storage''] 130)
        [''rules'', ''storage''] (Some thing1) accepted
        (event ''thing1'' ''temperature'' ''19.0'' 50) False
     = ignored EventTimeOlder (Some accepted) [''rules'', ''storage'']
   \<and> processUpdate (exampleServices [recording ''rules'', recording ''storage''] 130)
        [''rules'', ''storage''] (Some thing1) accepted
        (event ''thing1'' ''temperature'' ''21.5'' 100) False
     = ignored EventTimeOlder (Some accepted) [''rules'', ''storage'']"
proof -
  have last: "0 \<le> sint (lastUpdateTimestamp accepted)"
    by (simp add: scenario_defs example_defs)
  have older: "sint (timestamp (event ''thing1'' ''temperature'' ''19.0'' 50))
      \<le> sint (lastUpdateTimestamp accepted)"
    by (simp add: scenario_defs example_defs)
  have replay: "sint (timestamp (event ''thing1'' ''temperature'' ''21.5'' 100))
      \<le> sint (lastUpdateTimestamp accepted)"
    by (simp add: scenario_defs example_defs)
  have first: "attributeAfter
     (processUpdate (exampleServices [recording ''rules'', recording ''storage''] 120) []
        (Some thing1) temperature (event ''thing1'' ''temperature'' ''21.5'' 100) False)
     = Some accepted"
    by (simp add: scenario_defs example_defs service_defs)
  note second = stale_event_dropped [OF last older,
      of "exampleServices [recording ''rules'', recording ''storage''] 130"
         "[''rules'', ''storage'']" "Some thing1" False]
  note third = stale_event_dropped [OF last replay,
      of "exampleServices [recording ''rules'', recording ''storage''] 130"
         "[''rules'', ''storage'']" "Some thing1" False]
  have "processUpdate (exampleServices [recording ''rules'', recording ''storage''] 130)
        [''rules'', ''storage''] (Some thing1) accepted
        (event ''thing1'' ''temperature'' ''19.0'' 50) False
     = ignored EventTimeOlder (Some accepted) [''rules'', ''storage'']"
    using second by (simp add: ignored_def exampleServices_def event_def)
  moreover have "processUpdate (exampleServices [recording ''rules'', recording ''storage''] 130)
        [''rules'', ''storage''] (Some thing1) accepted
        (event ''thing1'' ''temperature'' ''21.5'' 100) False
     = ignored EventTimeOlder (Some accepted) [''rules'', ''storage'']"
    using third by (simp add: ignored_def exampleServices_def event_def)
  ultimately show ?thesis
    using first last older by simp
qed





text \<open>
  C4. A southbound submission whose asset is found and is of the agent type raises
  \<^verbatim>\<open>IllegalArgumentException\<close> to the caller, before any attribute is looked up: the
  call holds no attribute, creates no update, invokes no processor and leaves the world
  as it was.
\<close>

theorem agent_update_raises:
  assumes "findAsset env (entityId e) = Some a"
    and "wellKnownType a = AGENT"
  shows "updateAttributeValue env w e =
           \<lparr>outcome = Threw (IllegalArgumentException
               (''Agent attributes can not be updated individually, update the whole asset instead: ''
                  @ assetToString env a)),
            update = None, attributeAfter = None, worldAfter = w, invoked = []\<rparr>"
  using assms by (simp add: updateAttributeValue_def threw_def)

theorem agent_update_raises_witness:
  "findAsset (exampleServices [recording ''rules'', recording ''storage''] 120)
     (entityId (event ''agent1'' ''temperature'' ''21.5'' 100)) = Some agent1
   \<and> wellKnownType agent1 = AGENT
   \<and> updateAttributeValue (exampleServices [recording ''rules'', recording ''storage''] 120) []
       (event ''agent1'' ''temperature'' ''21.5'' 100) =
       \<lparr>outcome = Threw (IllegalArgumentException
           ''Agent attributes can not be updated individually, update the whole asset instead: agent1''),
        update = None, attributeAfter = None, worldAfter = [], invoked = []\<rparr>"
proof -
  let ?env = "exampleServices [recording ''rules'', recording ''storage''] 120"
  let ?e = "event ''agent1'' ''temperature'' ''21.5'' 100"
  have found: "findAsset ?env (entityId ?e) = Some agent1"
    by (simp add: exampleServices_def event_def)
  have agent: "wellKnownType agent1 = AGENT"
    by (simp add: agent1_def)
  from agent_update_raises [OF found agent, of "[]"]
  show ?thesis
    using found agent by (simp add: exampleServices_def agent1_def)
qed

text \<open>
  C5. A submission through either entry point that ends in a rejection (an early return
  after a warning, the constraint check among them, or the exception of the agent check)
  creates no update, invokes no processor and leaves the world as it was; the attribute
  the call holds at its end, if it holds one, is the attribute the lookups returned, with
  the value and the timestamp it had.
\<close>

theorem rejection_is_side_effect_free:
  assumes "rejected (outcome (submit nb env w e))"
  shows "update (submit nb env w e) = None
         \<and> invoked (submit nb env w e) = []
         \<and> worldAfter (submit nb env w e) = w
         \<and> (attributeAfter (submit nb env w e) = None
              \<or> attributeAfter (submit nb env w e) = addressed nb env e)"
proof (cases nb)
  case True
  show ?thesis
  proof (cases "newAssetAttributes env (findAsset env (entityId e))")
    case (Inl t)
    with True show ?thesis
      by (simp add: submit_def processSensorUpdate_def threw_def)
  next
    case (Inr attributes)
    show ?thesis
    proof (cases "thingAttributeGet env (attributes (attributeName e))")
      case (Inl t)
      with True Inr show ?thesis
        by (simp add: submit_def processSensorUpdate_def threw_def addressed_def)
    next
      case inr: (Inr linked)
      show ?thesis
      proof (cases linked)
        case None
        with True Inr inr show ?thesis
          by (simp add: submit_def processSensorUpdate_def ignored_def addressed_def)
      next
        case (Some thingAttribute)
        with True Inr inr have run: "submit nb env w e =
            processUpdate env w (findAsset env (entityId e)) thingAttribute e True"
          and target: "addressed nb env e = Some thingAttribute"
          by (simp_all add: submit_def processSensorUpdate_def addressed_def)
        from assms run processUpdate_rejected
          [of env w "findAsset env (entityId e)" thingAttribute e True]
        show ?thesis by (simp add: target)
      qed
    qed
  qed
next
  case False
  show ?thesis
  proof (cases "findAsset env (entityId e)")
    case None
    with False show ?thesis
      by (simp add: submit_def updateAttributeValue_def ignored_def)
  next
    case (Some a)
    show ?thesis
    proof (cases "wellKnownType a = AGENT")
      case True
      with False Some show ?thesis
        by (simp add: submit_def updateAttributeValue_def threw_def)
    next
      case other: False
      show ?thesis
      proof (cases "newAssetAttributes env (Some a)")
        case (Inl t)
        with False Some other show ?thesis
          by (simp add: submit_def updateAttributeValue_def threw_def)
      next
        case (Inr attributes)
        show ?thesis
        proof (cases "attributes (attributeName e)")
          case None
          with False Some other Inr show ?thesis
            by (simp add: submit_def updateAttributeValue_def ignored_def)
        next
          case found: (Some attr)
          show ?thesis
          proof (cases "readOnly attr")
            case True
            with False Some other Inr found show ?thesis
              by (simp add: submit_def updateAttributeValue_def ignored_def addressed_def)
          next
            case writable: False
            with False Some other Inr found have run: "submit nb env w e =
                processUpdate env w (Some a) attr e False"
              and target: "addressed nb env e = Some attr"
              by (simp_all add: submit_def updateAttributeValue_def addressed_def)
            from assms run processUpdate_rejected [of env w "Some a" attr e False]
            show ?thesis by (simp add: target)
          qed
        qed
      qed
    qed
  qed
qed

text \<open>
  Two rejected submissions: southbound, an event whose empty value violates the
  constraint of the temperature; northbound, an event for the serial number, which is not
  linked to an agent.
\<close>

theorem rejection_is_side_effect_free_witness:
  "outcome (submit False (exampleServices [recording ''rules'', recording ''storage''] 120) []
      (event ''thing1'' ''temperature'' [] 100)) = Ignored ConstraintViolation
   \<and> attributeAfter
       (submit False (exampleServices [recording ''rules'', recording ''storage''] 120) []
          (event ''thing1'' ''temperature'' [] 100)) = Some temperature
   \<and> invoked
       (submit False (exampleServices [recording ''rules'', recording ''storage''] 120) []
          (event ''thing1'' ''temperature'' [] 100)) = []
   \<and> worldAfter
       (submit False (exampleServices [recording ''rules'', recording ''storage''] 120) []
          (event ''thing1'' ''temperature'' [] 100)) = []
   \<and> outcome (submit True (exampleServices [recording ''rules'', recording ''storage''] 120) []
      (event ''thing1'' ''serial'' ''B-2'' 100)) = Ignored NotLinkedToAgent
   \<and> attributeAfter
       (submit True (exampleServices [recording ''rules'', recording ''storage''] 120) []
          (event ''thing1'' ''serial'' ''B-2'' 100)) = Some serial
   \<and> invoked
       (submit True (exampleServices [recording ''rules'', recording ''storage''] 120) []
          (event ''thing1'' ''serial'' ''B-2'' 100)) = []"
proof -
  let ?env = "exampleServices [recording ''rules'', recording ''storage''] 120"
  have south: "outcome (submit False ?env [] (event ''thing1'' ''temperature'' [] 100))
      = Ignored ConstraintViolation"
    by (simp add: service_defs example_defs)
  have north: "outcome (submit True ?env [] (event ''thing1'' ''serial'' ''B-2'' 100))
      = Ignored NotLinkedToAgent"
    by (simp add: service_defs example_defs)
  have target_south: "addressed False ?env (event ''thing1'' ''temperature'' [] 100)
      = Some temperature"
    by (simp add: addressed_def example_defs)
  have target_north: "addressed True ?env (event ''thing1'' ''serial'' ''B-2'' 100)
      = Some serial"
    by (simp add: addressed_def example_defs)
  have held_south: "attributeAfter (submit False ?env [] (event ''thing1'' ''temperature'' [] 100))
      \<noteq> None"
    by (simp add: service_defs example_defs)
  have held_north: "attributeAfter (submit True ?env [] (event ''thing1'' ''serial'' ''B-2'' 100))
      \<noteq> None"
    by (simp add: service_defs example_defs)
  have rs: "rejected (outcome (submit False ?env [] (event ''thing1'' ''temperature'' [] 100)))"
    by (simp add: south)
  have rn: "rejected (outcome (submit True ?env [] (event ''thing1'' ''serial'' ''B-2'' 100)))"
    by (simp add: north)
  from rejection_is_side_effect_free [OF rs] rejection_is_side_effect_free [OF rn]
  show ?thesis
    using south north target_south target_north held_south held_north by simp
qed

text \<open>
  The two entry points on an event whose asset the storage does not know.
  \<^verbatim>\<open>updateAttributeValue\<close> tests for it and returns. \<^verbatim>\<open>processSensorUpdate\<close> has no
  such test (it is commented out in the source) and passes \<^verbatim>\<open>null\<close> to the constructor
  of \<^verbatim>\<open>AssetAttributes\<close>, which is declared outside the service: what the call does then
  is what the constructor and \<^verbatim>\<open>ThingAttribute.get\<close> do with \<^verbatim>\<open>null\<close>. If the
  constructor raises, the exception reaches the caller; if it yields attributes of which
  the named one is not linked to an agent, the event is dropped with the warning of the
  link test. In both cases no processor is invoked and the world is as before.
\<close>

lemma updateAttributeValue_asset_missing:
  "findAsset env (entityId e) = None \<Longrightarrow>
   updateAttributeValue env w e = ignored AssetNotFound None w"
  by (simp add: updateAttributeValue_def)

lemma processSensorUpdate_asset_missing:
  "findAsset env (entityId e) = None \<Longrightarrow> newAssetAttributes env None = Inl t \<Longrightarrow>
   processSensorUpdate env w e = threw t None w"
  by (simp add: processSensorUpdate_def)

lemma processSensorUpdate_asset_missing_not_linked:
  "findAsset env (entityId e) = None \<Longrightarrow> newAssetAttributes env None = Inr attributes \<Longrightarrow>
   thingAttributeGet env (attributes (attributeName e)) = Inr None \<Longrightarrow>
   processSensorUpdate env w e = ignored NotLinkedToAgent (attributes (attributeName e)) w"
  by (simp add: processSensorUpdate_def)

text \<open>
  C7. The claim fails for a read-only attribute of an agent: the agent check comes first
  and raises to the caller.
\<close>

theorem read_only_agent_attribute_raises:
  "findAsset (exampleServices [recording ''rules'', recording ''storage''] 120)
     (entityId (event ''agent1'' ''serial'' ''B-2'' 100)) = Some agent1
   \<and> addressed False (exampleServices [recording ''rules'', recording ''storage''] 120)
       (event ''agent1'' ''serial'' ''B-2'' 100) = Some serial
   \<and> readOnly serial
   \<and> outcome
       (updateAttributeValue (exampleServices [recording ''rules'', recording ''storage''] 120) []
          (event ''agent1'' ''serial'' ''B-2'' 100)) =
       Threw (IllegalArgumentException
         ''Agent attributes can not be updated individually, update the whole asset instead: agent1'')"
  by (simp add: service_defs example_defs)

text \<open>
  C7, amended. A southbound submission for an existing read-only attribute never applies
  the event: no update is created, no processor is invoked, the world is as before and the
  attribute, where the call holds it, is as the lookup returned it. The event is dropped
  without raising when the asset is not an agent; for an agent the call raises the
  \<^verbatim>\<open>IllegalArgumentException\<close> of the agent check.
\<close>

theorem read_only_update_never_applied:
  assumes "findAsset env (entityId e) = Some a"
    and "newAssetAttributes env (Some a) = Inr attributes"
    and "attributes (attributeName e) = Some attr"
    and "readOnly attr"
  shows "outcome (updateAttributeValue env w e) =
           (if wellKnownType a = AGENT
            then Threw (IllegalArgumentException
               (''Agent attributes can not be updated individually, update the whole asset instead: ''
                  @ assetToString env a))
            else Ignored AttributeReadOnly)
         \<and> attributeAfter (updateAttributeValue env w e) =
             (if wellKnownType a = AGENT then None else Some attr)
         \<and> update (updateAttributeValue env w e) = None
         \<and> worldAfter (updateAttributeValue env w e) = w
         \<and> invoked (updateAttributeValue env w e) = []"
  using assms by (simp add: updateAttributeValue_def threw_def ignored_def)

theorem read_only_update_never_applied_witness:
  "readOnly serial
   \<and> wellKnownType thing1 \<noteq> AGENT
   \<and> updateAttributeValue (exampleServices [recording ''rules'', recording ''storage''] 120) []
       (event ''thing1'' ''serial'' ''B-2'' 100) =
       \<lparr>outcome = Ignored AttributeReadOnly, update = None, attributeAfter = Some serial,
        worldAfter = [], invoked = []\<rparr>"
proof -
  let ?env = "exampleServices [recording ''rules'', recording ''storage''] 120"
  let ?e = "event ''thing1'' ''serial'' ''B-2'' 100"
  let ?attributes = "\<lambda>n. if n = ''temperature'' then Some temperature
                          else if n = ''serial'' then Some serial else None"
  have found: "findAsset ?env (entityId ?e) = Some thing1"
    by (simp add: exampleServices_def event_def)
  have attrs: "newAssetAttributes ?env (Some thing1) = Inr ?attributes"
    by (simp add: exampleServices_def)
  have attr: "?attributes (attributeName ?e) = Some serial"
    by (simp add: event_def)
  have ro: "readOnly serial"
    by (simp add: serial_def)
  have thing: "wellKnownType thing1 \<noteq> AGENT"
    by (simp add: thing1_def)
  from read_only_update_never_applied [OF found attrs attr ro, of "[]"]
  have "outcome (updateAttributeValue ?env [] ?e) = Ignored AttributeReadOnly
      \<and> attributeAfter (updateAttributeValue ?env [] ?e) = Some serial
      \<and> update (updateAttributeValue ?env [] ?e) = None
      \<and> worldAfter (updateAttributeValue ?env [] ?e) = []
      \<and> invoked (updateAttributeValue ?env [] ?e) = []"
    using thing by simp
  then have "updateAttributeValue ?env [] ?e =
       \<lparr>outcome = Ignored AttributeReadOnly, update = None, attributeAfter = Some serial,
        worldAfter = [], invoked = []\<rparr>"
    by (cases "updateAttributeValue ?env [] ?e") simp
  with ro thing show ?thesis by simp
qed

text \<open>
  The future test subtracts in 64 bits. Where the true difference fits in 64 bits the
  subtraction is exact, and an event the test fires on is dropped with its warning.
\<close>

lemma sint_difference_exact:
  fixes x y :: long
  assumes "- (2 ^ 63) \<le> sint x - sint y" and "sint x - sint y < 2 ^ 63"
  shows "sint (x - y) = sint x - sint y"
proof -
  have "sint (x - y) = signed_take_bit (LENGTH(64) - 1) (sint x - sint y)"
    by (rule sint_word_ariths)
  also have "\<dots> = sint x - sint y"
    using assms by (intro signed_take_bit_int_eq_self) simp_all
  finally show ?thesis .
qed

lemma future_event_dropped:
  "1000 < sint (timestamp e - currentTimeMillis env) \<Longrightarrow>
   processUpdate env w a attr e nb = ignored EventTimeInFuture (Some attr) w"
  by (simp add: processUpdate_def)

text \<open>
  With a clock that reads a time since 1970, an event more than 1000 ms ahead of the
  clock is always dropped: this difference cannot wrap around. An event at most 1000 ms
  ahead passes the test whenever its distance to the clock fits in 64 bits.
\<close>

lemma future_event_dropped_on_running_clock:
  assumes clock: "0 \<le> sint (currentTimeMillis env)"
    and ahead: "1000 < sint (timestamp e) - sint (currentTimeMillis env)"
  shows "processUpdate env w a attr e nb = ignored EventTimeInFuture (Some attr) w"
proof -
  have "sint (timestamp e) < 2 ^ 63"
    using sint_lt [of "timestamp e"] by simp
  with clock ahead
  have "sint (timestamp e - currentTimeMillis env)
      = sint (timestamp e) - sint (currentTimeMillis env)"
    by (intro sint_difference_exact) simp_all
  with ahead show ?thesis
    by (simp add: future_event_dropped)
qed

lemma present_event_passes_future_test:
  assumes "- (2 ^ 63) \<le> sint (timestamp e) - sint (currentTimeMillis env)"
    and "sint (timestamp e) - sint (currentTimeMillis env) \<le> 1000"
  shows "\<not> 1000 < sint (timestamp e - currentTimeMillis env)"
proof -
  have "sint (timestamp e - currentTimeMillis env)
      = sint (timestamp e) - sint (currentTimeMillis env)"
    using assms by (intro sint_difference_exact) simp_all
  with assms(2) show ?thesis by simp
qed

text \<open>
  C8. For an event whose timestamp is the least \<^verbatim>\<open>long\<close> and a clock that reads
  1500000000000, the difference wraps around to a positive number above 1000: the event
  lies in the past, by more than 292 million years, and both entry points drop it with
  the warning that its time is in the future. Its attribute was never set and its value
  satisfies the constraint, so the other two tests would let it pass.
\<close>

theorem future_check_wraps_around:
  "sint (timestamp (event ''thing1'' ''temperature'' ''21.5'' (- 9223372036854775808)))
     - sint (currentTimeMillis
         (exampleServices [recording ''rules'', recording ''storage''] 1500000000000))
     = - 9223373536854775808
   \<and> sint (lastUpdateTimestamp temperature) = - 1
   \<and> constraintsOk (exampleServices [recording ''rules'', recording ''storage''] 1500000000000)
       temperature ''21.5''
   \<and> submit True (exampleServices [recording ''rules'', recording ''storage''] 1500000000000) []
       (event ''thing1'' ''temperature'' ''21.5'' (- 9223372036854775808)) =
       \<lparr>outcome = Ignored EventTimeInFuture, update = None, attributeAfter = Some temperature,
        worldAfter = [], invoked = []\<rparr>
   \<and> submit False (exampleServices [recording ''rules'', recording ''storage''] 1500000000000) []
       (event ''thing1'' ''temperature'' ''21.5'' (- 9223372036854775808)) =
       \<lparr>outcome = Ignored EventTimeInFuture, update = None, attributeAfter = Some temperature,
        worldAfter = [], invoked = []\<rparr>"
  by (simp add: service_defs example_defs)






end
